theory Spec2Isabelle
  imports Main
begin

section \<open>Data model of server.js\<close>

text \<open>
  The repository holds four variants of one server, which differ in the delivery backend:
  \<open>server.js\<close> (nodemailer, through the carriers' e-mail gateways), a variant that
  posts to the Resend API, and two Twilio variants, the older of which keeps no data
  files. The handlers for messages and config and the body of \<open>sendDailyMessage\<close> are
  the same in all of them up to the backend call; the model follows \<open>server.js\<close>.

  Strings are ASCII character lists. A message id is the number \<open>Date.now()\<close> returned
  when the message was created, an integer count of milliseconds; \<open>createdAt\<close> and
  \<open>sentAt\<close> hold the clock reading whose ISO rendering the source stores, and
  \<open>sentAt = None\<close> is the property being absent.
\<close>

record message =
  id_msg :: int
  text_msg :: string
  sent :: bool
  createdAt :: int
  sentAt :: "int option"

text \<open>
  \<open>phoneNumber = None\<close> is \<open>undefined\<close> (the request body had no such field).
\<close>

record config =
  phoneNumber :: "string option"
  sendTime :: string
  carrier :: string

section \<open>The address resolver: \<open>phoneToSmsEmail\<close>\<close>

definition CARRIER_DOMAINS :: "(string \<times> string) list" where
  "CARRIER_DOMAINS =
    [(''att'', ''txt.att.net''),
     (''verizon'', ''vtext.com''),
     (''tmobile'', ''tmomail.net''),
     (''sprint'', ''messaging.sprintpcs.com''),
     (''uscellular'', ''email.uscc.net''),
     (''boost'', ''sms.myboostmobile.com''),
     (''cricket'', ''sms.cricketwireless.net''),
     (''metropcs'', ''mymetropcs.com'')]"

text \<open>
  \<open>CARRIER_DOMAINS\<close> is an object literal, so \<open>CARRIER_DOMAINS[carrier]\<close> also finds the
  properties every object inherits from \<open>Object.prototype\<close>. Each of them is a function or
  an object, hence truthy, and the template literal renders it with \<open>toString\<close>: a
  built-in function as \<open>function NAME() { [native code] }\<close>, the prototype object
  itself as \<open>[object Object]\<close>. The table gives the rendering of each inherited
  property.
\<close>

definition nativeFunction :: "string \<Rightarrow> string" where
  "nativeFunction name = ''function '' @ name @ ''() { [native code] }''"

definition Object_prototype :: "(string \<times> string) list" where
  "Object_prototype =
    [(''constructor'', nativeFunction ''Object''),
     (''toString'', nativeFunction ''toString''),
     (''toLocaleString'', nativeFunction ''toLocaleString''),
     (''valueOf'', nativeFunction ''valueOf''),
     (''hasOwnProperty'', nativeFunction ''hasOwnProperty''),
     (''isPrototypeOf'', nativeFunction ''isPrototypeOf''),
     (''propertyIsEnumerable'', nativeFunction ''propertyIsEnumerable''),
     (''__defineGetter__'', nativeFunction ''__defineGetter__''),
     (''__defineSetter__'', nativeFunction ''__defineSetter__''),
     (''__lookupGetter__'', nativeFunction ''__lookupGetter__''),
     (''__lookupSetter__'', nativeFunction ''__lookupSetter__''),
     (''__proto__'', ''[object Object]'')]"

definition isDigit :: "char \<Rightarrow> bool" where
  "isDigit c = (c \<in> set ''0123456789'')"

text \<open>\<open>s.replace(/\\D/g, '')\<close>: every character that is not a decimal digit is dropped.\<close>

definition removeNonDigits :: "string \<Rightarrow> string" where
  "removeNonDigits s = filter isDigit s"

text \<open>\<open>s.replace(/^1/, '')\<close>: one \<open>1\<close> at the start of the string is dropped.\<close>

fun removeLeading1 :: "string \<Rightarrow> string" where
  "removeLeading1 [] = []"
| "removeLeading1 (c # cs) = (if c = CHR ''1'' then cs else c # cs)"

text \<open>
  \<open>CARRIER_DOMAINS[carrier] || CARRIER_DOMAINS.att\<close>, already rendered as the template
  literal renders it: an own property first, then the prototype chain, and the
  \<open>att\<close> entry only when the lookup is \<open>undefined\<close>.
\<close>

definition carrierDomain :: "string \<Rightarrow> string" where
  "carrierDomain tag =
    (case map_of CARRIER_DOMAINS tag of
       Some d \<Rightarrow> d
     | None \<Rightarrow>
        (case map_of Object_prototype tag of
           Some inherited \<Rightarrow> inherited
         | None \<Rightarrow> ''txt.att.net''))"

definition phoneToSmsEmail :: "string \<Rightarrow> string \<Rightarrow> string" where
  "phoneToSmsEmail phone tag =
    (let cleanNumber = removeLeading1 (removeNonDigits phone);
         domain = carrierDomain tag
     in cleanNumber @ ''@'' @ domain)"

section \<open>Server state and the durable store\<close>

text \<open>
  A cron job created by \<open>cron.schedule\<close>: its expression and whether it is still running
  (\<open>stop()\<close> clears the flag).
\<close>

record job =
  cronTime :: string
  running :: bool

text \<open>
  The module's variables \<open>messages\<close>, \<open>config\<close> and \<open>currentCronJob\<close>, and the contents of
  the two data files. \<open>JSON.stringify\<close> followed by \<open>JSON.parse\<close> is the identity on
  this data, so a file holds the value that was written.
\<close>

record server =
  messages :: "message list"
  config :: config
  currentCronJob :: "job option"
  messagesFile :: "message list"
  configFile :: config

definition initial :: server where
  "initial =
    \<lparr>messages = [],
     config = \<lparr>phoneNumber = Some [], sendTime = ''12:00'', carrier = ''att''\<rparr>,
     currentCronJob = None,
     messagesFile = [],
     configFile = \<lparr>phoneNumber = Some [], sendTime = ''12:00'', carrier = ''att''\<rparr>\<rparr>"

text \<open>
  \<open>saveMessages\<close> and \<open>saveConfig\<close> catch and log a failed \<open>fs.writeFile\<close>; the flag says
  whether the write went through.
\<close>

definition saveMessages :: "bool \<Rightarrow> server \<Rightarrow> server" where
  "saveMessages written s = (if written then s\<lparr>messagesFile := messages s\<rparr> else s)"

definition saveConfig :: "bool \<Rightarrow> server \<Rightarrow> server" where
  "saveConfig written s = (if written then s\<lparr>configFile := config s\<rparr> else s)"

text \<open>
  What a route handler answers: \<open>res.json({ success: true, ... })\<close> with its payload, or
  \<open>res.status(500).json({ error: err.message })\<close>.
\<close>

datatype 'a reply = Success 'a | Error500 string

section \<open>The message queue: \<open>POST /api/messages\<close> and \<open>DELETE /api/messages/:id\<close>\<close>

text \<open>
  The handler reads the clock twice: \<open>Date.now()\<close> for the id and \<open>new Date()\<close> for
  \<open>createdAt\<close>. There is no check of \<open>req.body.text\<close>.
\<close>

definition post_messages :: "int \<Rightarrow> int \<Rightarrow> bool \<Rightarrow> string \<Rightarrow> server \<Rightarrow> message reply \<times> server" where
  "post_messages now created written body_text s =
    (let newMessage =
           \<lparr>id_msg = now, text_msg = body_text, sent = False, createdAt = created,
            sentAt = None\<rparr>;
         s1 = s\<lparr>messages := messages s @ [newMessage]\<rparr>;
         s2 = saveMessages written s1
     in (Success newMessage, s2))"

text \<open>
  \<open>parseInt(string)\<close> with no radix, as ECMAScript defines it: leading white space is
  skipped, one sign is read, a \<open>0x\<close> or \<open>0X\<close> prefix selects radix 16, and the longest
  run of digits of the radix is the value; no digit at all gives \<open>NaN\<close>, here \<open>None\<close>.
  Numbers are read as exact integers, which is what the doubles of JavaScript hold up to
  \<open>2 ^ 53\<close>.
\<close>

definition isWhiteSpace :: "char \<Rightarrow> bool" where
  "isWhiteSpace c = (c \<in> set [CHR 0x09, CHR 0x0A, CHR 0x0B, CHR 0x0C, CHR 0x0D, CHR '' ''])"

definition digitValue :: "char \<Rightarrow> nat option" where
  "digitValue c =
    map_of
      [(CHR ''0'', 0), (CHR ''1'', 1), (CHR ''2'', 2), (CHR ''3'', 3),
       (CHR ''4'', 4), (CHR ''5'', 5), (CHR ''6'', 6), (CHR ''7'', 7),
       (CHR ''8'', 8), (CHR ''9'', 9), (CHR ''a'', 10), (CHR ''b'', 11),
       (CHR ''c'', 12), (CHR ''d'', 13), (CHR ''e'', 14), (CHR ''f'', 15),
       (CHR ''A'', 10), (CHR ''B'', 11), (CHR ''C'', 12), (CHR ''D'', 13),
       (CHR ''E'', 14), (CHR ''F'', 15)] c"

definition radixDigit :: "nat \<Rightarrow> char \<Rightarrow> bool" where
  "radixDigit radix c = (case digitValue c of None \<Rightarrow> False | Some v \<Rightarrow> v < radix)"

definition digitsValue :: "nat \<Rightarrow> string \<Rightarrow> nat" where
  "digitsValue radix z =
    foldl (\<lambda>acc c. acc * radix + (case digitValue c of None \<Rightarrow> 0 | Some v \<Rightarrow> v)) 0 z"

definition parseInt :: "string \<Rightarrow> int option" where
  "parseInt str =
    (let s = dropWhile isWhiteSpace str;
         negative = (take 1 s = ''-'');
         s1 = (if take 1 s = ''-'' \<or> take 1 s = ''+'' then drop 1 s else s);
         hex = (take 2 s1 = ''0x'' \<or> take 2 s1 = ''0X'');
         radix = (if hex then 16 else 10);
         s2 = (if hex then drop 2 s1 else s1);
         z = takeWhile (radixDigit radix) s2
     in if z = [] then None
        else Some ((if negative then - 1 else 1) * int (digitsValue radix z)))"

text \<open>
  \<open>messages.filter(m => m.id !== id)\<close>: \<open>NaN\<close> differs from every number, so nothing is
  filtered out when \<open>parseInt\<close> gives \<open>NaN\<close>. The answer is \<open>{ success: true }\<close> whatever
  the filter removed.
\<close>

definition delete_messages :: "bool \<Rightarrow> string \<Rightarrow> server \<Rightarrow> unit reply \<times> server" where
  "delete_messages written params_id s =
    (let ident = parseInt params_id;
         s1 = s\<lparr>messages := filter (\<lambda>m. Some (id_msg m) \<noteq> ident) (messages s)\<rparr>;
         s2 = saveMessages written s1
     in (Success (), s2))"

text \<open>A sequence of calls to the two handlers, each with what it reads from outside.\<close>

datatype call =
  AddMessage int int bool string
| DeleteMessage bool string

fun handle :: "call \<Rightarrow> server \<Rightarrow> server" where
  "handle (AddMessage now created written body_text) s =
     snd (post_messages now created written body_text s)"
| "handle (DeleteMessage written params_id) s = snd (delete_messages written params_id s)"

fun handleAll :: "call list \<Rightarrow> server \<Rightarrow> server" where
  "handleAll [] s = s"
| "handleAll (c # cs) s = handleAll cs (handle c s)"

text \<open>The \<open>Date.now()\<close> readings of the \<open>AddMessage\<close> calls, in call order.\<close>

fun idClocks :: "call list \<Rightarrow> int list" where
  "idClocks [] = []"
| "idClocks (AddMessage now created written body_text # cs) = now # idClocks cs"
| "idClocks (DeleteMessage written params_id # cs) = idClocks cs"

section \<open>The dispatcher: \<open>sendDailyMessage\<close>\<close>

text \<open>The object a run returns: \<open>{ success, message }\<close>.\<close>

record dispatchResult =
  success :: bool
  message :: string

text \<open>
  \<open>messages.filter(m => !m.sent)\<close> and its element \<open>[0]\<close>: the first message of the
  queue, in queue order, that is not sent.
\<close>

definition unsentMessages :: "message list \<Rightarrow> message list" where
  "unsentMessages msgs = filter (\<lambda>m. \<not> sent m) msgs"

definition oldestUnsent :: "message list \<Rightarrow> message option" where
  "oldestUnsent msgs = (case unsentMessages msgs of [] \<Rightarrow> None | m # _ \<Rightarrow> Some m)"

text \<open>
  \<open>messageToSend\<close> is a reference to that element of \<open>messages\<close>. A run never reassigns
  the array, so between the steps of dispatcher runs the element's position names the
  object: the number of sent messages in front of it.
\<close>

definition messageToSend_ref :: "message list \<Rightarrow> nat" where
  "messageToSend_ref msgs = length (takeWhile sent msgs)"

text \<open>
  The transporter is \<open>null\<close> (\<open>None\<close>) or an object whose \<open>sendMail(to, text)\<close> promise
  resolves (\<open>None\<close>) or rejects with an error message. A run executes up to its first
  \<open>await\<close> in one piece: it returns one of the three early results, or it has called
  \<open>sendMail\<close> and waits, holding the reference and the promise.
\<close>

type_synonym transporter = "(string \<Rightarrow> string \<Rightarrow> string option) option"

datatype started = Return dispatchResult | Pending nat "string option"

definition sendDailyMessage_begin :: "transporter \<Rightarrow> server \<Rightarrow> started" where
  "sendDailyMessage_begin transporter s =
    (case unsentMessages (messages s) of
       [] \<Rightarrow> Return \<lparr>success = False, message = ''No messages queued''\<rparr>
     | messageToSend # _ \<Rightarrow>
        (case transporter of
           None \<Rightarrow> Return \<lparr>success = False, message = ''Email not configured''\<rparr>
         | Some sendMail \<Rightarrow>
            (case phoneNumber (config s) of
               None \<Rightarrow> Return \<lparr>success = False, message = ''No phone number configured''\<rparr>
             | Some phone \<Rightarrow>
                if phone = []
                then Return \<lparr>success = False, message = ''No phone number configured''\<rparr>
                else Pending (messageToSend_ref (messages s))
                       (sendMail (phoneToSmsEmail phone (carrier (config s)))
                          (text_msg messageToSend)))))"

text \<open>
  The rest of the run, once the promise has settled: a rejection is caught and returned;
  otherwise the referenced message is marked, the queue saved and success returned.
  \<open>now\<close> is the clock read by \<open>new Date()\<close> at that moment.
\<close>

definition markSent :: "int \<Rightarrow> nat \<Rightarrow> message list \<Rightarrow> message list" where
  "markSent now i msgs =
    (if i < length msgs then msgs[i := (msgs ! i)\<lparr>sent := True, sentAt := Some now\<rparr>]
     else msgs)"

definition sendDailyMessage_resume ::
  "string option \<Rightarrow> int \<Rightarrow> bool \<Rightarrow> nat \<Rightarrow> server \<Rightarrow> dispatchResult \<times> server" where
  "sendDailyMessage_resume settled now written i s =
    (case settled of
       Some error_message \<Rightarrow> (\<lparr>success = False, message = error_message\<rparr>, s)
     | None \<Rightarrow>
        (let s1 = s\<lparr>messages := markSent now i (messages s)\<rparr>;
             s2 = saveMessages written s1
         in (\<lparr>success = True, message = ''Message sent!''\<rparr>, s2)))"

text \<open>One run with nothing else running in between.\<close>

definition sendDailyMessage ::
  "transporter \<Rightarrow> int \<Rightarrow> bool \<Rightarrow> server \<Rightarrow> dispatchResult \<times> server" where
  "sendDailyMessage transporter now written s =
    (case sendDailyMessage_begin transporter s of
       Return r \<Rightarrow> (r, s)
     | Pending i settled \<Rightarrow> sendDailyMessage_resume settled now written i s)"


subsection \<open>Overlapping runs\<close>

text \<open>
  Nothing in the source keeps a second run from starting while another one waits for
  \<open>sendMail\<close>: the timer callback and \<open>POST /api/send-now\<close> both call
  \<open>sendDailyMessage\<close> directly. An invocation is not started, waiting at the \<open>await\<close>, or
  finished; a schedule says which invocation takes its next step.
\<close>

datatype invocation = NotStarted | Waiting nat "string option" | Finished dispatchResult

fun advance :: "transporter \<Rightarrow> int \<Rightarrow> bool \<Rightarrow> invocation \<Rightarrow> server \<Rightarrow> invocation \<times> server" where
  "advance transporter now written NotStarted s =
     (case sendDailyMessage_begin transporter s of
        Return r \<Rightarrow> (Finished r, s)
      | Pending i settled \<Rightarrow> (Waiting i settled, s))"
| "advance transporter now written (Waiting i settled) s =
     (case sendDailyMessage_resume settled now written i s of (r, s') \<Rightarrow> (Finished r, s'))"
| "advance transporter now written (Finished r) s = (Finished r, s)"

fun interleave ::
  "transporter \<Rightarrow> int \<Rightarrow> bool \<Rightarrow> nat list \<Rightarrow> invocation list \<times> server \<Rightarrow> invocation list \<times> server" where
  "interleave transporter now written [] st = st"
| "interleave transporter now written (k # ks) (invs, s) =
     (if k < length invs
      then (case advance transporter now written (invs ! k) s of
              (inv', s') \<Rightarrow> interleave transporter now written ks (invs[k := inv'], s'))
      else interleave transporter now written ks (invs, s))"

section \<open>The scheduler: \<open>setupSchedule\<close> and \<open>POST /api/config\<close>\<close>

text \<open>\<open>String.prototype.split\<close> with a separator of one character.\<close>

fun splitOn :: "char \<Rightarrow> string \<Rightarrow> string list" where
  "splitOn sep [] = [[]]"
| "splitOn sep (c # cs) =
     (if c = sep then [] # splitOn sep cs
      else (case splitOn sep cs of [] \<Rightarrow> [[c]] | p # ps \<Rightarrow> (c # p) # ps))"

text \<open>
  \<open>const [hours, minutes] = config.sendTime.split(':')\<close> and the template
  \<open>`${minutes} ${hours} * * *`\<close>; a missing element is \<open>undefined\<close> and is rendered so.
\<close>

definition cronTimeOf :: "string \<Rightarrow> string" where
  "cronTimeOf time =
    (let parts = splitOn CHR '':'' time;
         hours = (case parts of [] \<Rightarrow> ''undefined'' | h # _ \<Rightarrow> h);
         minutes = (case parts of _ # m # _ \<Rightarrow> m | _ \<Rightarrow> ''undefined'')
     in minutes @ '' '' @ hours @ '' * * *'')"

text \<open>
  \<open>cron.schedule\<close> belongs to the node-cron library, which is not part of the repository.
  It is a parameter: \<open>schedule expr = None\<close> when the library accepts the expression and
  returns a running job, \<open>Some msg\<close> when it throws an error with that message. The
  existing job is stopped before the new expression is even built, so a throw leaves
  \<open>currentCronJob\<close> pointing at the stopped job.
\<close>

definition setupSchedule :: "(string \<Rightarrow> string option) \<Rightarrow> server \<Rightarrow> string option \<times> server" where
  "setupSchedule schedule s =
    (let s1 = (case currentCronJob s of
                 None \<Rightarrow> s
               | Some j \<Rightarrow> s\<lparr>currentCronJob := Some (j\<lparr>running := False\<rparr>)\<rparr>);
         expr = cronTimeOf (sendTime (config s1))
     in case schedule expr of
          Some thrown \<Rightarrow> (Some thrown, s1)
        | None \<Rightarrow> (None, s1\<lparr>currentCronJob := Some \<lparr>cronTime = expr, running = True\<rparr>\<rparr>))"

text \<open>
  The body of a config request: each field is absent or a string. \<open>x || d\<close> takes the
  default for an absent or empty string.
\<close>

record config_body =
  body_phoneNumber :: "string option"
  body_sendTime :: "string option"
  body_carrier :: "string option"

definition orDefault :: "string option \<Rightarrow> string \<Rightarrow> string" where
  "orDefault v d = (case v of None \<Rightarrow> d | Some x \<Rightarrow> if x = [] then d else x)"

definition newConfig :: "config_body \<Rightarrow> config" where
  "newConfig body =
    \<lparr>phoneNumber = body_phoneNumber body,
     sendTime = orDefault (body_sendTime body) ''12:00'',
     carrier = orDefault (body_carrier body) ''att''\<rparr>"

definition post_config ::
  "(string \<Rightarrow> string option) \<Rightarrow> bool \<Rightarrow> config_body \<Rightarrow> server \<Rightarrow> config reply \<times> server" where
  "post_config schedule written body s =
    (let s1 = s\<lparr>config := newConfig body\<rparr>;
         s2 = saveConfig written s1
     in case setupSchedule schedule s2 of
          (Some thrown, s3) \<Rightarrow> (Error500 thrown, s3)
        | (None, s3) \<Rightarrow> (Success (config s3), s3))"

text \<open>
  An instance of the library parameter, for running the model. On an expression of five
  fields it checks the fields in node-cron's order, minute first, and throws node-cron's
  error, which names the first field it refuses: \<open>99 is a invalid expression for minute\<close>.
  It accepts \<open>M H * * *\<close> where \<open>M\<close> and \<open>H\<close> are decimal numbers up to 59 and 23.
  node-cron accepts more than this (lists, ranges, steps, names, a sixth field for
  seconds), none of which the inputs evaluated below produce.
\<close>

definition numberUpTo :: "nat \<Rightarrow> string \<Rightarrow> bool" where
  "numberUpTo hi field = (field \<noteq> [] \<and> list_all isDigit field \<and> digitsValue 10 field \<le> hi)"

definition scheduleNumeric :: "string \<Rightarrow> string option" where
  "scheduleNumeric expr =
    (case splitOn CHR '' '' expr of
       [minute, hour, day, month, weekday] \<Rightarrow>
         if \<not> numberUpTo 59 minute
         then Some (minute @ '' is a invalid expression for minute'')
         else if \<not> numberUpTo 23 hour
         then Some (hour @ '' is a invalid expression for hour'')
         else if day \<noteq> ''*''
         then Some (day @ '' is a invalid expression for day of month'')
         else if month \<noteq> ''*''
         then Some (month @ '' is a invalid expression for month'')
         else if weekday \<noteq> ''*''
         then Some (weekday @ '' is a invalid expression for week day'')
         else None
     | _ \<Rightarrow> Some (expr @ '' is a invalid expression''))"

section \<open>Concrete inputs\<close>

text \<open>
  The end-to-end scenario: destination \<open>+15551234567\<close>, carrier \<open>tmobile\<close>, send time
  \<open>09:30\<close>, then the message \<open>Hello\<close> enqueued at clock reading 1000.
\<close>

definition tmobileBody :: config_body where
  "tmobileBody =
    \<lparr>body_phoneNumber = Some ''+15551234567'', body_sendTime = Some ''09:30'',
     body_carrier = Some ''tmobile''\<rparr>"

definition hello :: message where
  "hello = \<lparr>id_msg = 1000, text_msg = ''Hello'', sent = False, createdAt = 1000, sentAt = None\<rparr>"

definition helloQueued :: server where
  "helloQueued =
    snd (post_messages 1000 1000 True ''Hello''
      (snd (post_config scheduleNumeric True tmobileBody initial)))"

text \<open>
  Three messages enqueued at increasing clock readings and the oldest one deleted; and a
  queue in which two messages were created within the same millisecond.
\<close>

definition addsThenDelete :: "call list" where
  "addsThenDelete =
    [AddMessage 1000 1000 True ''a'', AddMessage 2000 2000 True ''b'',
     AddMessage 3000 3000 True ''c'', DeleteMessage True ''1000'']"

definition sameMillisecond :: server where
  "sameMillisecond =
    handleAll
      [AddMessage 1000 1000 True ''a'', AddMessage 1000 1000 True ''b'',
       AddMessage 2000 2000 True ''c''] initial"

text \<open>
  Two stub backends: one delivers to the resolved gateway address and rejects any other
  recipient, one fails on every call.
\<close>

definition gatewayStub :: "string \<Rightarrow> string \<Rightarrow> string option" where
  "gatewayStub recipient body =
    (if recipient = ''5551234567@tmomail.net'' then None else Some ''rejected recipient'')"

definition failingStub :: "string \<Rightarrow> string \<Rightarrow> string option" where
  "failingStub recipient body = Some ''connect ETIMEDOUT''"

section \<open>Address resolver: results\<close>

text \<open>
  What the resolver does for every destination and every carrier tag that does not name
  an inherited property: the digits of the destination, without one leading \<open>1\<close>, then
  \<open>@\<close>, then the domain of the tag in the table or, for a tag the table does not have,
  the domain of \<open>att\<close>.
\<close>

lemma phoneToSmsEmail_resolves:
  assumes "tag \<notin> fst ` set Object_prototype"
  shows "phoneToSmsEmail phone tag =
     removeLeading1 (filter isDigit phone) @ ''@'' @
       (case map_of CARRIER_DOMAINS tag of Some d \<Rightarrow> d | None \<Rightarrow> ''txt.att.net'')"
proof -
  have "map_of Object_prototype tag = None"
    using assms by (simp add: map_of_eq_None_iff)
  then show ?thesis
    by (simp add: phoneToSmsEmail_def carrierDomain_def removeNonDigits_def split: option.splits)
qed

lemma phoneToSmsEmail_unknown_tag:
  "phoneToSmsEmail ''(555) 123-4567'' ''nocarrier'' = ''5551234567@txt.att.net''"
  by (simp add: phoneToSmsEmail_def carrierDomain_def CARRIER_DOMAINS_def Object_prototype_def
      nativeFunction_def removeNonDigits_def isDigit_def)

text \<open>
  C4. The resolver is meant to fall back to the default carrier's domain for every
  unknown carrier tag. The tag \<open>constructor\<close> is not a carrier of the table, yet the
  lookup finds the inherited \<open>Object\<close> function, which is truthy, so the fallback is
  skipped and the address ends in the function's source text instead of \<open>txt.att.net\<close>.
\<close>

theorem phoneToSmsEmail_constructor_tag:
  "map_of CARRIER_DOMAINS ''constructor'' = None \<and>
   phoneToSmsEmail ''+15551234567'' ''constructor''
     = ''5551234567@function Object() { [native code] }'' \<and>
   phoneToSmsEmail ''+15551234567'' ''constructor'' \<noteq> ''5551234567@txt.att.net''"
  by (simp add: phoneToSmsEmail_def carrierDomain_def CARRIER_DOMAINS_def Object_prototype_def
      nativeFunction_def removeNonDigits_def isDigit_def)

section \<open>Concrete inputs: their values\<close>

lemma helloQueued_eq:
  "helloQueued =
    \<lparr>messages = [hello],
     config = \<lparr>phoneNumber = Some ''+15551234567'', sendTime = ''09:30'', carrier = ''tmobile''\<rparr>,
     currentCronJob = Some \<lparr>cronTime = ''30 09 * * *'', running = True\<rparr>,
     messagesFile = [hello],
     configFile = \<lparr>phoneNumber = Some ''+15551234567'', sendTime = ''09:30'', carrier = ''tmobile''\<rparr>\<rparr>"
  by (simp add: helloQueued_def hello_def post_messages_def post_config_def tmobileBody_def
      initial_def saveMessages_def saveConfig_def setupSchedule_def newConfig_def orDefault_def
      cronTimeOf_def scheduleNumeric_def numberUpTo_def isDigit_def digitsValue_def
      digitValue_def Let_def)

lemma resolve_tmobile:
  "phoneToSmsEmail ''+15551234567'' ''tmobile'' = ''5551234567@tmomail.net''"
  by (simp add: phoneToSmsEmail_def carrierDomain_def CARRIER_DOMAINS_def removeNonDigits_def
      isDigit_def)

section \<open>Dispatcher: results\<close>

subsection \<open>Selection and marking\<close>

lemma oldestUnsent_Nil: "oldestUnsent [] = None"
  by (simp add: oldestUnsent_def unsentMessages_def)

lemma oldestUnsent_Cons:
  "oldestUnsent (x # xs) = (if sent x then oldestUnsent xs else Some x)"
  by (simp add: oldestUnsent_def unsentMessages_def)

lemma oldestUnsent_split:
  "oldestUnsent msgs = Some m \<Longrightarrow>
     msgs = takeWhile sent msgs @ m # tl (dropWhile sent msgs) \<and> \<not> sent m"
  by (induction msgs) (auto simp: oldestUnsent_Nil oldestUnsent_Cons split: if_splits)

lemma oldestUnsent_None: "oldestUnsent msgs = None \<longleftrightarrow> list_all sent msgs"
  by (induction msgs) (auto simp: oldestUnsent_Nil oldestUnsent_Cons)

lemma markSent_Cons:
  "markSent now i (x # xs) =
     (case i of 0 \<Rightarrow> x\<lparr>sent := True, sentAt := Some now\<rparr> # xs | Suc j \<Rightarrow> x # markSent now j xs)"
  by (simp add: markSent_def split: nat.splits)






lemma messages_saveMessages: "messages (saveMessages written s) = messages s"
  by (simp add: saveMessages_def)



lemma begin_Pending:
  assumes "oldestUnsent (messages s) = Some m" "transporter = Some sendMail"
    "phoneNumber (config s) = Some phone" "phone \<noteq> []"
  shows "sendDailyMessage_begin transporter s =
    Pending (messageToSend_ref (messages s))
      (sendMail (phoneToSmsEmail phone (carrier (config s))) (text_msg m))"
  using assms
  by (auto simp: sendDailyMessage_begin_def oldestUnsent_def split: list.splits)

subsection \<open>A run whose backend call succeeds\<close>




subsection \<open>A run whose backend call fails\<close>

text \<open>
  C2. When a message is selected and \<open>sendMail\<close> rejects, the run returns the failure
  result carrying the error's message and the whole server state, queue and files, is
  what it was: the selected message is still unsent, it is still the first unsent message,
  and the next run (with any transporter) selects the same element and sends the same
  text to the same address.
\<close>

theorem sendDailyMessage_failure_keeps_queue:
  assumes "oldestUnsent (messages s) = Some m" and "transporter = Some sendMail"
    and "phoneNumber (config s) = Some phone" and "phone \<noteq> []"
    and "sendMail (phoneToSmsEmail phone (carrier (config s))) (text_msg m) = Some reason"
  shows "sendDailyMessage transporter now written s = (\<lparr>success = False, message = reason\<rparr>, s) \<and>
    \<not> sent m \<and>
    oldestUnsent (messages (snd (sendDailyMessage transporter now written s))) = Some m \<and>
    sendDailyMessage_begin (Some sendMail') (snd (sendDailyMessage transporter now written s))
      = Pending (messageToSend_ref (messages s))
          (sendMail' (phoneToSmsEmail phone (carrier (config s))) (text_msg m))"
proof -
  have run: "sendDailyMessage transporter now written s = (\<lparr>success = False, message = reason\<rparr>, s)"
    using begin_Pending [OF assms(1-4)] assms(5)
    by (simp add: sendDailyMessage_def sendDailyMessage_resume_def)
  have unsent: "\<not> sent m" using oldestUnsent_split [OF assms(1)] by simp
  have again: "sendDailyMessage_begin (Some sendMail') s
          = Pending (messageToSend_ref (messages s))
              (sendMail' (phoneToSmsEmail phone (carrier (config s))) (text_msg m))"
    using begin_Pending [OF assms(1) refl assms(3,4), of sendMail'] .
  show ?thesis by (simp add: run unsent again assms(1))
qed

theorem sendDailyMessage_failure_keeps_queue_witness:
  "oldestUnsent (messages helloQueued) = Some hello \<and>
   phoneNumber (config helloQueued) = Some ''+15551234567'' \<and>
   failingStub (phoneToSmsEmail ''+15551234567'' (carrier (config helloQueued))) (text_msg hello)
     = Some ''connect ETIMEDOUT'' \<and>
   sendDailyMessage (Some failingStub) 2000 True helloQueued
     = (\<lparr>success = False, message = ''connect ETIMEDOUT''\<rparr>, helloQueued) \<and>
   sendDailyMessage_begin (Some gatewayStub)
       (snd (sendDailyMessage (Some failingStub) 2000 True helloQueued))
     = Pending 0 None"
proof -
  have sel: "oldestUnsent (messages helloQueued) = Some hello"
    by (simp add: helloQueued_eq oldestUnsent_Cons hello_def)
  have ph: "phoneNumber (config helloQueued) = Some ''+15551234567''"
    by (simp add: helloQueued_eq)
  have bad: "failingStub (phoneToSmsEmail ''+15551234567'' (carrier (config helloQueued)))
      (text_msg hello) = Some ''connect ETIMEDOUT''"
    by (simp add: failingStub_def)
  have ref: "messageToSend_ref (messages helloQueued) = 0"
    by (simp add: helloQueued_eq hello_def messageToSend_ref_def)
  have ok: "gatewayStub (phoneToSmsEmail ''+15551234567'' (carrier (config helloQueued)))
      (text_msg hello) = None"
    by (simp add: helloQueued_eq resolve_tmobile gatewayStub_def)
  show ?thesis
    using sendDailyMessage_failure_keeps_queue
      [where s = helloQueued and m = hello and transporter = "Some failingStub"
        and sendMail = failingStub and phone = "''+15551234567''"
        and reason = "''connect ETIMEDOUT''" and now = 2000 and written = True
        and sendMail' = gatewayStub]
      sel ph bad ref ok
    by auto
qed

subsection \<open>Two invocations\<close>

lemma unsent_single_oldest: "unsentMessages msgs = [m] \<Longrightarrow> oldestUnsent msgs = Some m"
  by (simp add: oldestUnsent_def)

lemma unsentMessages_Cons:
  "unsentMessages (x # xs) = (if sent x then unsentMessages xs else x # unsentMessages xs)"
  by (simp add: unsentMessages_def)

lemma unsent_single_marked:
  "unsentMessages msgs = [m] \<Longrightarrow>
     unsentMessages (markSent now (messageToSend_ref msgs) msgs) = []"
  by (induction msgs)
     (auto simp: unsentMessages_Cons markSent_Cons messageToSend_ref_def unsentMessages_def
           split: if_splits)

lemma begin_none_queued:
  "unsentMessages (messages s) = [] \<Longrightarrow>
     sendDailyMessage_begin transporter s
       = Return \<lparr>success = False, message = ''No messages queued''\<rparr>"
  by (simp add: sendDailyMessage_begin_def)

lemma resume_resolved:
  "sendDailyMessage_resume None now written i s =
     (\<lparr>success = True, message = ''Message sent!''\<rparr>,
      saveMessages written (s\<lparr>messages := markSent now i (messages s)\<rparr>))"
  by (simp add: sendDailyMessage_resume_def Let_def)

text \<open>
  C3, as stated, fails: with the single message \<open>Hello\<close> queued and a backend that
  delivers, let the second invocation start while the first waits for \<open>sendMail\<close>. After
  the two first steps both invocations hold a reference to the same element 0 of the
  queue, and both finish with the success result: two Sent outcomes for one message.
\<close>

theorem overlapping_runs_both_send:
  "unsentMessages (messages helloQueued) = [hello] \<and>
   fst (interleave (Some gatewayStub) 2000 True [0, 1] ([NotStarted, NotStarted], helloQueued))
     = [Waiting 0 None, Waiting 0 None] \<and>
   fst (interleave (Some gatewayStub) 2000 True [0, 1, 0, 1] ([NotStarted, NotStarted], helloQueued))
     = [Finished \<lparr>success = True, message = ''Message sent!''\<rparr>,
        Finished \<lparr>success = True, message = ''Message sent!''\<rparr>]"
  by (simp add: helloQueued_eq hello_def unsentMessages_def sendDailyMessage_begin_def
      sendDailyMessage_resume_def messageToSend_ref_def resolve_tmobile gatewayStub_def
      markSent_def saveMessages_def Let_def)

text \<open>
  C3, amended. With exactly one unsent message queued and a backend that delivers, two
  invocations that run one after the other end with one success result and one
  \<open>No messages queued\<close>. The procedure is not single-flight: in each of the four
  schedules where the second invocation starts before the first has resumed, both
  invocations wait on a send for the same element and both end with the success result.
\<close>

theorem two_runs_outcomes:
  assumes "unsentMessages (messages s) = [m]" and "transporter = Some sendMail"
    and "phoneNumber (config s) = Some phone" and "phone \<noteq> []"
    and "sendMail (phoneToSmsEmail phone (carrier (config s))) (text_msg m) = None"
  shows
   "fst (interleave transporter now written [0, 0, 1, 1] ([NotStarted, NotStarted], s))
      = [Finished \<lparr>success = True, message = ''Message sent!''\<rparr>,
         Finished \<lparr>success = False, message = ''No messages queued''\<rparr>] \<and>
    fst (interleave transporter now written [1, 1, 0, 0] ([NotStarted, NotStarted], s))
      = [Finished \<lparr>success = False, message = ''No messages queued''\<rparr>,
         Finished \<lparr>success = True, message = ''Message sent!''\<rparr>] \<and>
    fst (interleave transporter now written [0, 1] ([NotStarted, NotStarted], s))
      = [Waiting (messageToSend_ref (messages s)) None,
         Waiting (messageToSend_ref (messages s)) None] \<and>
    (\<forall>overlapping \<in> set [[0, 1, 0, 1], [0, 1, 1, 0], [1, 0, 0, 1], [1, 0, 1, 0]].
       fst (interleave transporter now written overlapping ([NotStarted, NotStarted], s))
         = [Finished \<lparr>success = True, message = ''Message sent!''\<rparr>,
            Finished \<lparr>success = True, message = ''Message sent!''\<rparr>])"
proof -
  have b: "sendDailyMessage_begin transporter s = Pending (messageToSend_ref (messages s)) None"
    using begin_Pending [OF unsent_single_oldest [OF assms(1)] assms(2,3,4)] assms(5) by simp
  have e: "sendDailyMessage_begin transporter
      (saveMessages written
        (s\<lparr>messages := markSent now (messageToSend_ref (messages s)) (messages s)\<rparr>))
      = Return \<lparr>success = False, message = ''No messages queued''\<rparr>"
    by (rule begin_none_queued) (simp add: messages_saveMessages unsent_single_marked [OF assms(1)])
  show ?thesis
    by (simp add: b e resume_resolved)
qed

theorem two_runs_outcomes_witness:
  "unsentMessages (messages helloQueued) = [hello] \<and>
   phoneNumber (config helloQueued) = Some ''+15551234567'' \<and>
   gatewayStub (phoneToSmsEmail ''+15551234567'' (carrier (config helloQueued))) (text_msg hello)
     = None \<and>
   fst (interleave (Some gatewayStub) 2000 True [0, 0, 1, 1] ([NotStarted, NotStarted], helloQueued))
     = [Finished \<lparr>success = True, message = ''Message sent!''\<rparr>,
        Finished \<lparr>success = False, message = ''No messages queued''\<rparr>] \<and>
   fst (interleave (Some gatewayStub) 2000 True [0, 1, 1, 0] ([NotStarted, NotStarted], helloQueued))
     = [Finished \<lparr>success = True, message = ''Message sent!''\<rparr>,
        Finished \<lparr>success = True, message = ''Message sent!''\<rparr>]"
proof -
  have one: "unsentMessages (messages helloQueued) = [hello]"
    by (simp add: helloQueued_eq hello_def unsentMessages_def)
  have ph: "phoneNumber (config helloQueued) = Some ''+15551234567''"
    by (simp add: helloQueued_eq)
  have ne: "''+15551234567'' \<noteq> []" by simp
  have ok: "gatewayStub (phoneToSmsEmail ''+15551234567'' (carrier (config helloQueued)))
      (text_msg hello) = None"
    by (simp add: helloQueued_eq resolve_tmobile gatewayStub_def)
  show ?thesis
    using two_runs_outcomes
      [where s = helloQueued and m = hello and transporter = "Some gatewayStub"
        and sendMail = gatewayStub and phone = "''+15551234567''" and now = 2000
        and written = True]
      one ph ok
    by simp
qed

section \<open>Message queue: results\<close>

lemmas parseInt_eval =
  parseInt_def isWhiteSpace_def radixDigit_def digitValue_def digitsValue_def

lemma messages_post:
  "messages (snd (post_messages now created written body_text s))
     = messages s @ [\<lparr>id_msg = now, text_msg = body_text, sent = False, createdAt = created,
         sentAt = None\<rparr>]"
  by (simp add: post_messages_def messages_saveMessages Let_def)

lemma messages_delete:
  "messages (snd (delete_messages written params_id s))
     = filter (\<lambda>m. Some (id_msg m) \<noteq> parseInt params_id) (messages s)"
  by (simp add: delete_messages_def messages_saveMessages Let_def)

subsection \<open>Enqueueing\<close>



lemma post_messages_write_fails:
  "fst (post_messages 1000 1000 False ''Hello'' initial) = Success hello \<and>
   messages (snd (post_messages 1000 1000 False ''Hello'' initial)) = [hello] \<and>
   messagesFile (snd (post_messages 1000 1000 False ''Hello'' initial)) = []"
  by (simp add: post_messages_def saveMessages_def initial_def hello_def Let_def)

text \<open>
  C7, as stated, fails: two enqueue calls that read the same millisecond from
  \<open>Date.now()\<close> give their messages the same id.
\<close>

theorem ids_same_millisecond:
  "map id_msg (messages (handleAll
      [AddMessage 1000 1000 True ''a'', AddMessage 1000 1000 True ''b''] initial))
    = [1000, 1000]"
  by (simp add: messages_post initial_def)

text \<open>
  C7, amended. Each enqueue call gives its message the \<open>Date.now()\<close> reading of the call
  as id: after a sequence of enqueue calls the ids in the queue are the ids that were
  there followed by the readings, in call order. So, from the empty queue, the ids are
  strictly increasing exactly when the readings are.
\<close>

theorem ids_are_clock_readings:
  "map id_msg (messages (handleAll
      (map (\<lambda>(now, created, written, body_text). AddMessage now created written body_text) adds) s))
     = map id_msg (messages s) @ map fst adds \<and>
   sorted_wrt (<) (map id_msg (messages (handleAll
      (map (\<lambda>(now, created, written, body_text). AddMessage now created written body_text) adds)
      initial)))
     = sorted_wrt (<) (map fst adds)"
proof -
  have ids: "map id_msg (messages (handleAll
      (map (\<lambda>(now, created, written, body_text). AddMessage now created written body_text) adds) t))
     = map id_msg (messages t) @ map fst adds" for t
    by (induction adds arbitrary: t) (auto simp: messages_post)
  show ?thesis by (simp add: ids) (simp add: initial_def)
qed

subsection \<open>Deleting\<close>

text \<open>
  C9, as stated, fails: the handler answers \<open>{ success: true }\<close> without looking at what
  the filter removed. Deleting id 5 from the empty queue reports success although no
  message existed.
\<close>

theorem delete_absent_reports_success:
  "messages initial = [] \<and> fst (delete_messages True ''5'' initial) = Success ()"
  by (simp add: delete_messages_def initial_def Let_def)

text \<open>
  C9, amended. \<open>deleteMessage\<close> always reports success, both when a message with that id
  existed and when none did; whether one existed shows only in the queue, which gets
  shorter exactly in that case.
\<close>

theorem delete_messages_always_success:
  "fst (delete_messages written params_id s) = Success () \<and>
   ((\<exists>m \<in> set (messages s). Some (id_msg m) = parseInt params_id)
      = (length (messages (snd (delete_messages written params_id s))) < length (messages s)))"
proof -
  have "(\<exists>m \<in> set xs. Some (id_msg m) = k)
      = (length (filter (\<lambda>m. Some (id_msg m) \<noteq> k) xs) < length xs)"
    for xs :: "message list" and k
    by (induction xs) (auto simp: less_Suc_eq_le)
  then show ?thesis
    by (simp add: delete_messages_def messages_saveMessages Let_def)
qed

text \<open>
  C10. For every id string, the queue after \<open>deleteMessage\<close> is the queue before without
  the messages whose id equals \<open>parseInt\<close> of the string, all of them when several share
  the id, and the call reports success whatever was removed. When \<open>parseInt\<close> gives
  \<open>NaN\<close> the queue is unchanged and success is still reported.
\<close>

theorem delete_messages_filters:
  "fst (delete_messages written params_id s) = Success () \<and>
   messages (snd (delete_messages written params_id s))
     = filter (\<lambda>m. Some (id_msg m) \<noteq> parseInt params_id) (messages s) \<and>
   (\<forall>m \<in> set (messages (snd (delete_messages written params_id s))).
      Some (id_msg m) \<noteq> parseInt params_id) \<and>
   (parseInt params_id = None \<longrightarrow>
      messages (snd (delete_messages written params_id s)) = messages s)"
  by (simp add: delete_messages_def messages_saveMessages Let_def)

theorem delete_messages_filters_witness:
  "parseInt ''abc'' = None \<and>
   fst (delete_messages True ''abc'' sameMillisecond) = Success () \<and>
   messages (snd (delete_messages True ''abc'' sameMillisecond)) = messages sameMillisecond \<and>
   map id_msg (messages sameMillisecond) = [1000, 1000, 2000] \<and>
   fst (delete_messages True ''1000'' sameMillisecond) = Success () \<and>
   map id_msg (messages (snd (delete_messages True ''1000'' sameMillisecond))) = [2000]"
proof -
  have nan: "parseInt ''abc'' = None"
    by (simp add: parseInt_eval)
  have num: "parseInt ''1000'' = Some 1000"
    by (simp add: parseInt_eval)
  have msgs: "messages sameMillisecond =
      [\<lparr>id_msg = 1000, text_msg = ''a'', sent = False, createdAt = 1000, sentAt = None\<rparr>,
       \<lparr>id_msg = 1000, text_msg = ''b'', sent = False, createdAt = 1000, sentAt = None\<rparr>,
       \<lparr>id_msg = 2000, text_msg = ''c'', sent = False, createdAt = 2000, sentAt = None\<rparr>]"
    by (simp add: sameMillisecond_def messages_post initial_def)
  show ?thesis
    using delete_messages_filters [of True "''abc''" sameMillisecond]
      delete_messages_filters [of True "''1000''" sameMillisecond]
    by (simp add: nan num msgs)
qed

subsection \<open>Selection after adds and deletes\<close>

lemma sorted_ids_handleAll:
  "sorted (map id_msg (messages s) @ idClocks calls) \<Longrightarrow>
     sorted (map id_msg (messages (handleAll calls s)))"
proof (induction calls arbitrary: s)
  case Nil
  then show ?case by simp
next
  case (Cons c cs)
  show ?case
  proof (cases c)
    case (AddMessage now created written body_text)
    with Cons.prems have "sorted (map id_msg (messages (handle c s)) @ idClocks cs)"
      by (simp add: messages_post)
    then show ?thesis using Cons.IH by simp
  next
    case (DeleteMessage written params_id)
    with Cons.prems have "sorted (map id_msg (messages (handle c s)) @ idClocks cs)"
      by (auto simp: messages_delete sorted_append sorted_filter)
    then show ?thesis using Cons.IH by simp
  qed
qed

lemma oldest_lowest:
  assumes "sorted (map id_msg msgs)" "oldestUnsent msgs = Some m" "m' \<in> set msgs" "\<not> sent m'"
  shows "id_msg m \<le> id_msg m'"
  using assms
  by (induction msgs) (auto simp: oldestUnsent_Nil oldestUnsent_Cons split: if_splits)

text \<open>
  C8, as stated, fails: ids are \<open>Date.now()\<close> readings, and the wall clock can be set
  back. When the second message is enqueued at a lower reading than the first, the
  selection still takes the first message of the queue, whose id 2000 is not the lowest
  among the unsent ones.
\<close>

theorem oldestUnsent_backwards_clock:
  "oldestUnsent (messages (handleAll
      [AddMessage 2000 2000 True ''a'', AddMessage 1000 1000 True ''b''] initial))
    = Some \<lparr>id_msg = 2000, text_msg = ''a'', sent = False, createdAt = 2000, sentAt = None\<rparr> \<and>
   unsentMessages (messages (handleAll
      [AddMessage 2000 2000 True ''a'', AddMessage 1000 1000 True ''b''] initial))
    = [\<lparr>id_msg = 2000, text_msg = ''a'', sent = False, createdAt = 2000, sentAt = None\<rparr>,
       \<lparr>id_msg = 1000, text_msg = ''b'', sent = False, createdAt = 1000, sentAt = None\<rparr>]"
  by (simp add: messages_post initial_def oldestUnsent_def unsentMessages_def)

text \<open>
  C8, amended. After any sequence of add and delete calls on the empty queue, the
  selection returns none when no message is unsent, and otherwise the first unsent
  message in queue order (every message in front of it is sent), whatever the order of
  the deletions. Whenever the \<open>Date.now()\<close> readings of the add calls never decreased,
  that message has the lowest id among the unsent messages.
\<close>

theorem oldestUnsent_after_calls:
  assumes "msgs = messages (handleAll calls initial)"
  shows "case oldestUnsent msgs of
      None \<Rightarrow> unsentMessages msgs = []
    | Some m \<Rightarrow>
        msgs = takeWhile sent msgs @ m # tl (dropWhile sent msgs) \<and> \<not> sent m \<and>
        (sorted (idClocks calls) \<longrightarrow> (\<forall>m' \<in> set msgs. \<not> sent m' \<longrightarrow> id_msg m \<le> id_msg m'))"
proof (cases "oldestUnsent msgs")
  case None
  then show ?thesis by (simp add: oldestUnsent_def split: list.splits)
next
  case (Some m)
  have "sorted (map id_msg msgs)" if "sorted (idClocks calls)"
    using sorted_ids_handleAll [of initial calls] that assms by (simp add: initial_def)
  then show ?thesis
    using Some oldestUnsent_split [OF Some] oldest_lowest [OF _ Some] by auto
qed

theorem oldestUnsent_after_calls_witness:
  "sorted (idClocks addsThenDelete) \<and>
   messages (handleAll addsThenDelete initial)
     = [\<lparr>id_msg = 2000, text_msg = ''b'', sent = False, createdAt = 2000, sentAt = None\<rparr>,
        \<lparr>id_msg = 3000, text_msg = ''c'', sent = False, createdAt = 3000, sentAt = None\<rparr>] \<and>
   oldestUnsent (messages (handleAll addsThenDelete initial))
     = Some \<lparr>id_msg = 2000, text_msg = ''b'', sent = False, createdAt = 2000, sentAt = None\<rparr> \<and>
   list_all (\<lambda>m'. sent m' \<or> 2000 \<le> id_msg m') (messages (handleAll addsThenDelete initial))"
proof -
  have clocks: "sorted (idClocks addsThenDelete)"
    by (simp add: addsThenDelete_def)
  have msgs: "messages (handleAll addsThenDelete initial)
     = [\<lparr>id_msg = 2000, text_msg = ''b'', sent = False, createdAt = 2000, sentAt = None\<rparr>,
        \<lparr>id_msg = 3000, text_msg = ''c'', sent = False, createdAt = 3000, sentAt = None\<rparr>]"
    by (simp add: addsThenDelete_def messages_post messages_delete initial_def parseInt_eval)
  show ?thesis
    using oldestUnsent_after_calls [OF refl, of addsThenDelete] clocks
    by (simp add: msgs oldestUnsent_Cons)
qed

section \<open>Scheduler: results\<close>





end
